theory Spec2Isabelle
  imports Main "HOL-Library.Multiset" "HOL-Library.Sublist" "HOL-Library.Word"
begin

section \<open>Event lists (package server)\<close>

text \<open>
  An \<open>api.Event\<close> carries, among its object metadata, the \<open>CreationTimestamp\<close> that
  \<open>filterEventList\<close> sorts by. The timestamp is an instant (nanoseconds since the epoch).
\<close>

record Event =
  event_Name :: string
  event_UID :: string
  CreationTimestamp :: int
  event_Message :: string

record EventList =
  Items :: "Event list"

text \<open>\<open>Time.Before\<close>: the instant \<open>t\<close> is before the instant \<open>u\<close>.\<close>

definition Before :: "int \<Rightarrow> int \<Rightarrow> bool" where
  "Before t u \<longleftrightarrow> t < u"

text \<open>\<open>var MaxEventListSize = 4000\<close>, a Go \<open>int\<close>.\<close>

definition MaxEventListSize :: int where
  "MaxEventListSize = 4000"

text \<open>
  \<open>sort.Slice\<close> belongs to Go's standard library. It takes the comparison \<open>less\<close> (here \<open>lt\<close>) and is
  not stable: among items that \<open>less\<close> does not order it may leave any order. It is
  therefore a parameter \<open>sortSlice\<close> of the model, which receives the comparison (on the
  items, where Go passes their indices) and the items. \<open>sortSlice_contract\<close> is what the
  library promises of it, for every comparison that is a strict weak ordering: the result
  is a permutation of the input in which no item is \<open>less\<close> than an earlier one.
\<close>

definition strict_weak_ordering :: "('a \<Rightarrow> 'a \<Rightarrow> bool) \<Rightarrow> bool" where
  "strict_weak_ordering lt \<longleftrightarrow>
     (\<forall>a. \<not> lt a a)
     \<and> (\<forall>a b c. lt a b \<and> lt b c \<longrightarrow> lt a c)
     \<and> (\<forall>a b c. \<not> lt a b \<and> \<not> lt b a \<and> \<not> lt b c \<and> \<not> lt c b
           \<longrightarrow> \<not> lt a c \<and> \<not> lt c a)"

definition sortSlice_contract ::
  "((Event \<Rightarrow> Event \<Rightarrow> bool) \<Rightarrow> Event list \<Rightarrow> Event list) \<Rightarrow> bool" where
  "sortSlice_contract sortSlice \<longleftrightarrow>
     (\<forall>lt xs. strict_weak_ordering lt \<longrightarrow>
        mset (sortSlice lt xs) = mset xs
        \<and> sorted_wrt (\<lambda>a b. \<not> lt b a) (sortSlice lt xs))"

text \<open>
  \<open>filterEventList\<close> takes a pointer, so the argument is an \<open>option\<close> with \<open>None\<close> for
  \<open>nil\<close>. The list is sorted in place, with the comparison
  \<open>Items[i].CreationTimestamp.Before(Items[j].CreationTimestamp)\<close>, and re-sliced from
  \<open>start\<close>; the pointer that was passed is returned.
\<close>

definition filterEventList ::
  "((Event \<Rightarrow> Event \<Rightarrow> bool) \<Rightarrow> Event list \<Rightarrow> Event list)
    \<Rightarrow> EventList option \<Rightarrow> EventList option" where
  "filterEventList sortSlice eventList =
     (case eventList of
        None \<Rightarrow> None
      | Some l \<Rightarrow>
          if int (length (Items l)) > MaxEventListSize then
            (let sortedItems =
                   sortSlice (\<lambda>i j. Before (CreationTimestamp i) (CreationTimestamp j))
                     (Items l);
                 size = int (length sortedItems);
                 start = size - MaxEventListSize
             in Some (l\<lparr>Items := drop (nat start) sortedItems\<rparr>))
          else Some l)"

text \<open>
  \<open>api.MilpaObject\<close> is an interface. The type switch of \<open>filterReplyObject\<close> tells a
  \<open>*api.EventList\<close> (possibly a nil pointer of that type) from every other dynamic type;
  the other kinds are the type parameter \<open>'o\<close>, and \<open>NilObject\<close> is the nil interface.
\<close>

datatype 'o MilpaObject =
    NilObject
  | EventListPtr "EventList option"
  | OtherObject 'o

fun filterReplyObject ::
  "((Event \<Rightarrow> Event \<Rightarrow> bool) \<Rightarrow> Event list \<Rightarrow> Event list)
    \<Rightarrow> 'o MilpaObject \<Rightarrow> 'o MilpaObject" where
  "filterReplyObject sortSlice (EventListPtr v) = EventListPtr (filterEventList sortSlice v)"
| "filterReplyObject sortSlice obj = obj"

text \<open>
  A sort that meets the contract: insertion sort, which puts each item before the first
  item it is \<open>less\<close> than.
\<close>

fun insert_by :: "('a \<Rightarrow> 'a \<Rightarrow> bool) \<Rightarrow> 'a \<Rightarrow> 'a list \<Rightarrow> 'a list" where
  "insert_by lt x [] = [x]"
| "insert_by lt x (y # ys) = (if lt x y then x # y # ys else y # insert_by lt x ys)"

fun insertion_sort :: "('a \<Rightarrow> 'a \<Rightarrow> bool) \<Rightarrow> 'a list \<Rightarrow> 'a list" where
  "insertion_sort lt [] = []"
| "insertion_sort lt (x # xs) = insert_by lt x (insertion_sort lt xs)"

text \<open>
  Event lists to run the filter on: 4001 events whose timestamps fall from 4000 to 0, two
  events, and three events out of order.
\<close>

definition event_at :: "int \<Rightarrow> Event" where
  "event_at t = \<lparr>event_Name = ''pod-started'', event_UID = ''uid'', CreationTimestamp = t,
     event_Message = ''''\<rparr>"

definition long_event_list :: EventList where
  "long_event_list = \<lparr>Items = map (\<lambda>i. event_at (4000 - int i)) [0..<4001]\<rparr>"

definition short_event_list :: EventList where
  "short_event_list = \<lparr>Items = [event_at 7, event_at 3]\<rparr>"

section \<open>Errors\<close>

text \<open>
  Go \<open>error\<close> values. \<open>ErrKeyNotFound\<close> is \<open>store.ErrKeyNotFound\<close>; \<open>ErrStore\<close> is any other
  failure the store client reports (the text is its message); \<open>ErrIO\<close> and \<open>ErrJSON\<close> are
  what \<open>ioutil.ReadFile\<close> and \<open>json.Unmarshal\<close> report; \<open>Errorf\<close> is an error built by
  \<open>fmt.Errorf\<close> with its rendered message (the verbs \<open>%s\<close> and \<open>%v\<close> applied to a string
  insert the string). \<open>ErrReadingConfig path cause\<close> stands for
  \<open>fmt.Errorf("reading config %q: %v", path, cause)\<close>, whose \<open>%q\<close> quoting is not rendered.
\<close>

datatype error =
    ErrKeyNotFound
  | ErrKeyExists
  | ErrKeyModified
  | ErrStore string
  | ErrIO string
  | ErrJSON string
  | Errorf string
  | ErrReadingConfig string error

section \<open>The cluster region (package server)\<close>

definition etcdClusterRegionPath :: string where
  "etcdClusterRegionPath = ''milpa/cluster/region''"

text \<open>
  Modelled from the spec: \<open>etcd.SimpleEtcd\<close> (package etcd), whose \<open>Get\<close> and \<open>AtomicPut\<close>
  are not among the sources. The store holds keys with values (``keys under
  \<open>milpa/<kind>/...\<close>''), and \<open>AtomicPut\<close> is the ``atomic-put-with-previous-value'': with no
  previous value it creates the key and fails if the key exists, with a previous value it
  replaces exactly that value. \<open>unreachable\<close> is the failure of the connection to the store:
  while it is set, every request returns that error and changes nothing.
\<close>

record SimpleEtcd =
  kv :: "string \<rightharpoonup> string"
  unreachable :: "string option"

text \<open>
  Modelled from the spec: \<open>SimpleEtcd.Get\<close>, the value stored under a key, or
  \<open>store.ErrKeyNotFound\<close>.
\<close>

definition Get :: "SimpleEtcd \<Rightarrow> string \<Rightarrow> error + string" where
  "Get client key =
     (case unreachable client of
        Some msg \<Rightarrow> Inl (ErrStore msg)
      | None \<Rightarrow> (case kv client key of None \<Rightarrow> Inl ErrKeyNotFound | Some v \<Rightarrow> Inr v))"

text \<open>
  Modelled from the spec: \<open>SimpleEtcd.AtomicPut\<close>, the atomic put with the previous value
  (\<open>None\<close> for \<open>nil\<close>); it returns the error and the store after the call.
\<close>

definition AtomicPut ::
  "SimpleEtcd \<Rightarrow> string \<Rightarrow> string \<Rightarrow> string option \<Rightarrow> error option \<times> SimpleEtcd" where
  "AtomicPut client key val previous =
     (case unreachable client of
        Some msg \<Rightarrow> (Some (ErrStore msg), client)
      | None \<Rightarrow>
          (case previous of
             None \<Rightarrow>
               if kv client key = None then (None, client\<lparr>kv := (kv client)(key \<mapsto> val)\<rparr>)
               else (Some ErrKeyExists, client)
           | Some p \<Rightarrow>
               if kv client key = Some p then (None, client\<lparr>kv := (kv client)(key \<mapsto> val)\<rparr>)
               else (Some ErrKeyModified, client)))"

text \<open>
  \<open>ensureRegionUnchanged\<close> returns the error (\<open>None\<close> for \<open>nil\<close>) and the store as the call
  leaves it.
\<close>

definition ensureRegionUnchanged :: "SimpleEtcd \<Rightarrow> string \<Rightarrow> error option \<times> SimpleEtcd" where
  "ensureRegionUnchanged etcdClient region =
     (case Get etcdClient etcdClusterRegionPath of
        Inl err \<Rightarrow>
          if err \<noteq> ErrKeyNotFound then (Some err, etcdClient)
          else AtomicPut etcdClient etcdClusterRegionPath region None
      | Inr savedRegion \<Rightarrow>
          if region \<noteq> savedRegion then
            (Some (Errorf (''Error: region has changed from '' @ savedRegion @ '' to '' @ region
                @ ''. '' @ ''This is unsupported. ''
                @ ''Please delete all cluster resources and rename your cluster.'')),
             etcdClient)
          else (None, etcdClient))"

section \<open>The provider configuration (package server)\<close>

definition defaultCPUCapacity :: string where "defaultCPUCapacity = ''20''"
definition defaultMemoryCapacity :: string where "defaultMemoryCapacity = ''100Gi''"
definition defaultPodCapacity :: string where "defaultPodCapacity = ''20''"

record ProviderConfig =
  CPU :: string
  Memory :: string
  Pods :: string

text \<open>The zero value of the struct, which the named result \<open>config\<close> starts as.\<close>

definition zeroProviderConfig :: ProviderConfig where
  "zeroProviderConfig = \<lparr>CPU = '''', Memory = '''', Pods = ''''\<rparr>"

text \<open>
  \<open>loadProviderConfig\<close> calls three library functions, which are parameters of the model:
  \<open>readFile\<close> is \<open>ioutil.ReadFile\<close> on the file system of the process, \<open>unmarshal\<close> is
  \<open>json.Unmarshal\<close> into a \<open>map[string]ProviderConfig\<close>, and \<open>parseQuantity\<close> is
  \<open>resource.ParseQuantity\<close> (\<open>None\<close> when it returns an error). Go returns the pair
  \<open>(config, err)\<close>, and so does the model.
\<close>

definition loadProviderConfig ::
  "(string \<Rightarrow> error + string) \<Rightarrow> (string \<Rightarrow> error + (string \<rightharpoonup> ProviderConfig))
    \<Rightarrow> (string \<Rightarrow> 'q option) \<Rightarrow> string \<Rightarrow> string \<Rightarrow> ProviderConfig \<times> error option" where
  "loadProviderConfig readFile unmarshal parseQuantity providerConfig nodeName =
     (case readFile providerConfig of
        Inl err \<Rightarrow> (zeroProviderConfig, Some (ErrReadingConfig providerConfig err))
      | Inr data \<Rightarrow>
          (case unmarshal data of
             Inl err \<Rightarrow> (zeroProviderConfig, Some err)
           | Inr configMap \<Rightarrow>
               (let config0 = (case configMap nodeName of
                                 Some c \<Rightarrow> c | None \<Rightarrow> zeroProviderConfig);
                    config1 = (if CPU config0 = '''' then config0\<lparr>CPU := defaultCPUCapacity\<rparr>
                               else config0);
                    config2 = (if Memory config1 = ''''
                               then config1\<lparr>Memory := defaultMemoryCapacity\<rparr> else config1);
                    config = (if Pods config2 = '''' then config2\<lparr>Pods := defaultPodCapacity\<rparr>
                              else config2)
                in if parseQuantity (CPU config) = None then
                     (config, Some (Errorf (''Invalid CPU value '' @ CPU config)))
                   else if parseQuantity (Memory config) = None then
                     (config, Some (Errorf (''Invalid memory value '' @ Memory config)))
                   else if parseQuantity (Pods config) = None then
                     (config, Some (Errorf (''Invalid pods value '' @ Pods config)))
                   else (config, None))))"

section \<open>The instance provider (package server)\<close>

subsection \<open>Registry objects\<close>

datatype PodPhase =
  PodWaiting | PodDispatching | PodRunning | PodSucceeded | PodFailed | PodTerminated

record ObjectReference =
  ref_Kind :: string
  ref_UID :: string
  ref_Name :: string

record Pod =
  pod_Name :: string
  pod_UID :: string
  Phase :: PodPhase
  BoundNodeName :: string

record Node =
  node_Name :: string
  node_Addresses :: string

record LogFile =
  log_Name :: string
  ParentObject :: ObjectReference
  Content :: string

definition ToObjectReference :: "Pod \<Rightarrow> ObjectReference" where
  "ToObjectReference pod = \<lparr>ref_Kind = ''Pod'', ref_UID = pod_UID pod, ref_Name = pod_Name pod\<rparr>"

subsection \<open>The provider\<close>

text \<open>
  The fields of \<open>InstanceProvider\<close> that the functions below read. \<open>KV\<close> maps a kind to its
  registry; the three registries that \<open>setupLogTestServer\<close> installs are the fields
  \<open>KV_Pod\<close>, \<open>KV_Node\<close> (both keyed by object name) and \<open>KV_Log\<close> (``keyed by parent pod/node
  reference'': here by the name of the parent). \<open>ItzoClientFactory\<close> gives, for the
  addresses of a node, what the node agent there answers to a request for logs.
\<close>

record InstanceProvider =
  KV_Pod :: "string \<rightharpoonup> Pod"
  KV_Node :: "string \<rightharpoonup> Node"
  KV_Log :: "string \<rightharpoonup> LogFile"
  ItzoClientFactory :: "string \<Rightarrow> error + string"
  nodeName :: string
  operatingSystem :: string
  internalIP :: string
  daemonEndpointPort :: "32 word"
  config :: ProviderConfig
  startTime :: int

subsection \<open>Log lookup\<close>

text \<open>
  Modelled from the spec: the log lookup \<open>findLog\<close> of package server and its registry
  fallback \<open>logFromRegistry\<close>; \<open>findLog\<close> is not among the sources, only
  its tests are. The spec gives the pod controller's log path as ``translate virtual-kubelet
  callbacks into node-agent HTTP calls; logs additionally have a registry fallback
  (\<open>findLog\<close>) that returns the last snapshot'', and its scenario 2 has a pod in \<open>Waiting\<close>
  answered from the Log registry with no agent call. The tests fix the three cases: a
  \<open>Running\<close> pod bound to a node is answered by the agent of that node, with the pod as
  parent of the returned log; a pod in another phase, and a name that is no pod, are
  answered by the Log record stored for that parent, whose name must be \<open>itemName\<close> unless
  \<open>itemName\<close> is empty. The second component of the result lists the agents contacted.
\<close>

definition logFromRegistry :: "InstanceProvider \<Rightarrow> string \<Rightarrow> string \<Rightarrow> error + LogFile" where
  "logFromRegistry s resourceName itemName =
     (case KV_Log s resourceName of
        None \<Rightarrow> Inl ErrKeyNotFound
      | Some l \<Rightarrow>
          if itemName = '''' \<or> log_Name l = itemName then Inr l else Inl ErrKeyNotFound)"

text \<open>
  Modelled from the spec: \<open>findLog\<close>, which asks the node agent for a \<open>Running\<close> pod only
  and falls back on the Log registry otherwise.
\<close>

definition findLog ::
  "InstanceProvider \<Rightarrow> string \<Rightarrow> string \<Rightarrow> int \<Rightarrow> int \<Rightarrow> (error + LogFile) \<times> string list" where
  "findLog s resourceName itemName lines limitBytes =
     (case KV_Pod s resourceName of
        Some pod \<Rightarrow>
          if Phase pod = PodRunning then
            (case KV_Node s (BoundNodeName pod) of
               None \<Rightarrow> (Inl ErrKeyNotFound, [])
             | Some node \<Rightarrow>
                 (case ItzoClientFactory s (node_Addresses node) of
                    Inl err \<Rightarrow> (Inl err, [node_Addresses node])
                  | Inr logs \<Rightarrow>
                      (Inr \<lparr>log_Name = itemName, ParentObject = ToObjectReference pod,
                            Content = logs\<rparr>,
                       [node_Addresses node])))
          else (logFromRegistry s resourceName itemName, [])
      | None \<Rightarrow> (logFromRegistry s resourceName itemName, []))"

subsection \<open>Pod lifecycle callbacks\<close>

text \<open>
  A \<open>context.Context\<close> is modelled by the fields that \<open>span.WithField\<close> has attached to it for tracing, in order.
\<close>

type_synonym span_fields = "(string \<times> string) list"

definition namespaceKey :: string where "namespaceKey = ''namespace''"
definition nameKey :: string where "nameKey = ''name''"
definition containerNameKey :: string where "containerNameKey = ''containerName''"

fun withFields :: "span_fields \<Rightarrow> string list \<Rightarrow> span_fields" where
  "withFields ctx (k # v # attrs) = withFields (ctx @ [(k, v)]) attrs"
| "withFields ctx attrs = ctx"

definition addAttributes :: "span_fields \<Rightarrow> string list \<Rightarrow> span_fields" where
  "addAttributes ctx attrs =
     (if length attrs mod 2 = 1 then ctx else withFields ctx attrs)"

text \<open>
  The Kubernetes objects the callbacks receive. \<open>CreatePod\<close>, \<open>UpdatePod\<close> and \<open>DeletePod\<close>
  take a \<open>*v1.Pod\<close>, an \<open>option\<close> with \<open>None\<close> for \<open>nil\<close>; they read \<open>pod.Namespace\<close> and
  \<open>pod.Name\<close> for the trace span before they return, which on a nil pod is the run-time
  panic of a nil pointer dereference.
\<close>

record v1_Pod =
  v1pod_Namespace :: string
  v1pod_Name :: string

record v1_PodStatus =
  v1pod_Phase :: string

datatype panic = NilPointerDereference

definition CreatePod ::
  "InstanceProvider \<Rightarrow> span_fields \<Rightarrow> v1_Pod option \<Rightarrow> panic + error option" where
  "CreatePod p ctx pod =
     (case pod of
        None \<Rightarrow> Inl NilPointerDereference
      | Some pd \<Rightarrow>
          (let ctx' = addAttributes ctx
                 [namespaceKey, v1pod_Namespace pd, nameKey, v1pod_Name pd]
           in Inr (Some (Errorf ''not implemented''))))"

definition UpdatePod ::
  "InstanceProvider \<Rightarrow> span_fields \<Rightarrow> v1_Pod option \<Rightarrow> panic + error option" where
  "UpdatePod p ctx pod =
     (case pod of
        None \<Rightarrow> Inl NilPointerDereference
      | Some pd \<Rightarrow>
          (let ctx' = addAttributes ctx
                 [namespaceKey, v1pod_Namespace pd, nameKey, v1pod_Name pd]
           in Inr (Some (Errorf ''not implemented''))))"

definition DeletePod ::
  "InstanceProvider \<Rightarrow> span_fields \<Rightarrow> v1_Pod option \<Rightarrow> panic + error option" where
  "DeletePod p ctx pod =
     (case pod of
        None \<Rightarrow> Inl NilPointerDereference
      | Some pd \<Rightarrow>
          (let ctx' = addAttributes ctx
                 [namespaceKey, v1pod_Namespace pd, nameKey, v1pod_Name pd]
           in Inr (Some (Errorf ''not implemented''))))"

definition GetPod ::
  "InstanceProvider \<Rightarrow> span_fields \<Rightarrow> string \<Rightarrow> string \<Rightarrow> v1_Pod option \<times> error option" where
  "GetPod p ctx namespace name =
     (let ctx' = addAttributes ctx [namespaceKey, namespace, nameKey, name]
      in (None, Some (Errorf ''not implemented'')))"

text \<open>The \<open>io.ReadCloser\<close> of the logs would be a stream of bytes.\<close>

definition GetContainerLogs ::
  "InstanceProvider \<Rightarrow> span_fields \<Rightarrow> string \<Rightarrow> string \<Rightarrow> string \<Rightarrow> 'opts
    \<Rightarrow> string option \<times> error option" where
  "GetContainerLogs p ctx namespace podName containerName opts =
     (let ctx' = addAttributes ctx
        [namespaceKey, namespace, nameKey, podName, containerNameKey, containerName]
      in (None, Some (Errorf ''not implemented'')))"

definition RunInContainer ::
  "InstanceProvider \<Rightarrow> span_fields \<Rightarrow> string \<Rightarrow> string \<Rightarrow> string \<Rightarrow> string list \<Rightarrow> 'io
    \<Rightarrow> error option" where
  "RunInContainer p ctx namespace podName containerName cmd attach =
     (let ctx' = addAttributes ctx
        [namespaceKey, namespace, nameKey, podName, containerNameKey, containerName]
      in Some (Errorf ''not implemented''))"

definition GetPodStatus ::
  "InstanceProvider \<Rightarrow> span_fields \<Rightarrow> string \<Rightarrow> string \<Rightarrow> v1_PodStatus option \<times> error option" where
  "GetPodStatus p ctx namespace name =
     (let ctx' = addAttributes ctx [namespaceKey, namespace, nameKey, name]
      in (None, Some (Errorf ''not implemented'')))"

text \<open>\<open>GetPods\<close> returns the nil slice, which has no elements.\<close>

definition GetPods :: "InstanceProvider \<Rightarrow> span_fields \<Rightarrow> v1_Pod list \<times> error option" where
  "GetPods p ctx = ([], Some (Errorf ''not implemented''))"

subsection \<open>Node status\<close>

datatype ConditionStatus = ConditionTrue | ConditionFalse | ConditionUnknown

record NodeCondition =
  cond_Type :: string
  cond_Status :: ConditionStatus
  LastHeartbeatTime :: int
  LastTransitionTime :: int
  Reason :: string
  Message :: string

record NodeAddress =
  addr_Type :: string
  Address :: string

record DaemonEndpoint =
  Port :: "32 word"

record NodeDaemonEndpoints =
  KubeletEndpoint :: DaemonEndpoint

record NodeSystemInfo =
  MachineID :: string
  KernelVersion :: string
  OperatingSystem :: string
  Architecture :: string

text \<open>
  A \<open>v1.ResourceList\<close> maps resource names to quantities. \<open>resource.Quantity\<close> is the type
  parameter \<open>'q\<close>.
\<close>

record 'q NodeStatus =
  Capacity :: "string \<rightharpoonup> 'q"
  Allocatable :: "string \<rightharpoonup> 'q"
  Conditions :: "NodeCondition list"
  Addresses :: "NodeAddress list"
  DaemonEndpoints :: NodeDaemonEndpoints
  NodeInfo :: NodeSystemInfo

record 'q v1_Node =
  v1node_Name :: string
  v1node_Status :: "'q NodeStatus"

text \<open>
  \<open>resource.MustParse\<close> panics where \<open>resource.ParseQuantity\<close> returns an error, so
  \<open>capacity\<close> returns \<open>None\<close> for the panic. The three quantities are parsed in the order of
  the literal.
\<close>

definition capacity :: "(string \<Rightarrow> 'q option) \<Rightarrow> InstanceProvider \<Rightarrow> (string \<rightharpoonup> 'q) option" where
  "capacity parseQuantity p =
     (case parseQuantity (CPU (config p)) of
        None \<Rightarrow> None
      | Some cpu \<Rightarrow>
          (case parseQuantity (Memory (config p)) of
             None \<Rightarrow> None
           | Some memory \<Rightarrow>
               (case parseQuantity (Pods (config p)) of
                  None \<Rightarrow> None
                | Some pods \<Rightarrow>
                    Some [''cpu'' \<mapsto> cpu, ''memory'' \<mapsto> memory, ''pods'' \<mapsto> pods])))"

text \<open>
  \<open>metav1.Now()\<close> reads the clock at each of its ten calls; \<open>now k\<close> is the reading of the
  \<open>k\<close>-th call, in the order of the literal.
\<close>

definition nodeConditions :: "InstanceProvider \<Rightarrow> (nat \<Rightarrow> int) \<Rightarrow> NodeCondition list" where
  "nodeConditions p now =
     [\<lparr>cond_Type = ''Ready'', cond_Status = ConditionTrue,
       LastHeartbeatTime = now 0, LastTransitionTime = now 1,
       Reason = ''KubeletReady'', Message = ''kubelet is ready''\<rparr>,
      \<lparr>cond_Type = ''OutOfDisk'', cond_Status = ConditionFalse,
       LastHeartbeatTime = now 2, LastTransitionTime = now 3,
       Reason = ''KubeletHasSufficientDisk'',
       Message = ''kubelet has sufficient disk space available''\<rparr>,
      \<lparr>cond_Type = ''MemoryPressure'', cond_Status = ConditionFalse,
       LastHeartbeatTime = now 4, LastTransitionTime = now 5,
       Reason = ''KubeletHasSufficientMemory'',
       Message = ''kubelet has sufficient memory available''\<rparr>,
      \<lparr>cond_Type = ''DiskPressure'', cond_Status = ConditionFalse,
       LastHeartbeatTime = now 6, LastTransitionTime = now 7,
       Reason = ''KubeletHasNoDiskPressure'', Message = ''kubelet has no disk pressure''\<rparr>,
      \<lparr>cond_Type = ''NetworkUnavailable'', cond_Status = ConditionFalse,
       LastHeartbeatTime = now 8, LastTransitionTime = now 9,
       Reason = ''RouteCreated'', Message = ''RouteController created a route''\<rparr>]"

definition nodeAddresses :: "InstanceProvider \<Rightarrow> NodeAddress list" where
  "nodeAddresses p = [\<lparr>addr_Type = ''InternalIP'', Address = internalIP p\<rparr>]"

definition nodeDaemonEndpoints :: "InstanceProvider \<Rightarrow> NodeDaemonEndpoints" where
  "nodeDaemonEndpoints p = \<lparr>KubeletEndpoint = \<lparr>Port = daemonEndpointPort p\<rparr>\<rparr>"

text \<open>
  \<open>ConfigureNode\<close> updates the node it is given and returns nothing; the node is a
  \<open>*v1.Node\<close>, an \<open>option\<close> with \<open>None\<close> for \<open>nil\<close>. The model returns the updated node, or
  \<open>None\<close> when the call panics: when one of the two calls of \<open>capacity\<close> does, or at the
  first assignment through a nil node.
\<close>

definition ConfigureNode ::
  "(string \<Rightarrow> 'q option) \<Rightarrow> (nat \<Rightarrow> int) \<Rightarrow> InstanceProvider \<Rightarrow> 'q v1_Node option
    \<Rightarrow> 'q v1_Node option" where
  "ConfigureNode parseQuantity now p n =
     (case capacity parseQuantity p of
        None \<Rightarrow> None
      | Some cap1 \<Rightarrow>
          (case n of
             None \<Rightarrow> None
           | Some nd \<Rightarrow>
               (case capacity parseQuantity p of
                  None \<Rightarrow> None
                | Some cap2 \<Rightarrow>
                    (let os = operatingSystem p;
                         os = (if os = '''' then ''Linux'' else os);
                         st = v1node_Status nd;
                         st = st\<lparr>Capacity := cap1\<rparr>;
                         st = st\<lparr>Allocatable := cap2\<rparr>;
                         st = st\<lparr>Conditions := nodeConditions p now\<rparr>;
                         st = st\<lparr>Addresses := nodeAddresses p\<rparr>;
                         st = st\<lparr>DaemonEndpoints := nodeDaemonEndpoints p\<rparr>;
                         st = st\<lparr>NodeInfo := (NodeInfo st)\<lparr>OperatingSystem := os\<rparr>\<rparr>;
                         st = st\<lparr>NodeInfo := (NodeInfo st)\<lparr>Architecture := ''amd64''\<rparr>\<rparr>
                     in Some (nd\<lparr>v1node_Status := st\<rparr>)))))"

section \<open>Controller intervals (package server, \<open>NewInstanceProvider\<close>)\<close>

text \<open>\<open>time.Duration\<close> is an \<open>int64\<close> count of nanoseconds.\<close>

type_synonym Duration = "64 word"

definition Nanosecond :: Duration where "Nanosecond = 1"
definition Microsecond :: Duration where "Microsecond = 1000 * Nanosecond"
definition Millisecond :: Duration where "Millisecond = 1000 * Microsecond"
definition Second :: Duration where "Second = 1000 * Millisecond"

record NodeControllerConfig =
  PoolInterval :: Duration
  HeartbeatInterval :: Duration
  ReaperInterval :: Duration
  ItzoVersion :: string
  ItzoURL :: string

record GarbageControllerConfig =
  CleanInstancesInterval :: Duration
  CleanTerminatedInterval :: Duration

text \<open>
  The two configuration literals that \<open>NewInstanceProvider\<close> builds; the Itzo version and
  URL come from the server configuration file.
\<close>

definition nodeControllerConfig :: "string \<Rightarrow> string \<Rightarrow> NodeControllerConfig" where
  "nodeControllerConfig itzoVersion itzoURL =
     \<lparr>PoolInterval = 7 * Second,
      HeartbeatInterval = 10 * Second,
      ReaperInterval = 10 * Second,
      ItzoVersion = itzoVersion,
      ItzoURL = itzoURL\<rparr>"

definition garbageControllerConfig :: GarbageControllerConfig where
  "garbageControllerConfig =
     \<lparr>CleanInstancesInterval = 60 * Second,
      CleanTerminatedInterval = 10 * Second\<rparr>"

section \<open>Inputs of the scenarios\<close>

text \<open>
  The spec's scenario 3: the store holds region \<open>us-east-1\<close> and answers requests.
\<close>

definition scenario_store :: SimpleEtcd where
  "scenario_store = \<lparr>kv = [etcdClusterRegionPath \<mapsto> ''us-east-1''], unreachable = None\<rparr>"

text \<open>
  What the claim about \<open>loadProviderConfig\<close> says of the returned fields, in its words:
  every field left empty is filled with the defaults \<open>cpu = "20"\<close>, \<open>memory = "100Gi"\<close>,
  \<open>pods = "20"\<close>.
\<close>

definition filled_with_defaults :: "ProviderConfig \<Rightarrow> ProviderConfig" where
  "filled_with_defaults c =
     \<lparr>CPU = (if CPU c = '''' then ''20'' else CPU c),
      Memory = (if Memory c = '''' then ''100Gi'' else Memory c),
      Pods = (if Pods c = '''' then ''20'' else Pods c)\<rparr>"

text \<open>
  A file system with one provider configuration file, a file system whose file holds the
  single character \<open>{\<close>, the decoding of the two contents by \<open>json.Unmarshal\<close>, and a
  stand-in for \<open>resource.ParseQuantity\<close> that rejects the empty string and \<open>lots\<close>.
\<close>

definition provider_file :: "string \<Rightarrow> error + string" where
  "provider_file path =
     (if path = ''/etc/kip/provider.json'' then Inr ''{\"node-1\": {\"cpu\": \"8\"}}''
      else Inl (ErrIO ''no such file or directory''))"

definition provider_json :: "string \<Rightarrow> error + (string \<rightharpoonup> ProviderConfig)" where
  "provider_json data =
     (if data = ''{\"node-1\": {\"cpu\": \"8\"}}''
      then Inr [''node-1'' \<mapsto> \<lparr>CPU = ''8'', Memory = '''', Pods = ''''\<rparr>]
      else Inl (ErrJSON ''unexpected end of JSON input''))"

definition broken_file :: "string \<Rightarrow> error + string" where
  "broken_file path = Inr ''{''"

definition some_quantity :: "string \<Rightarrow> string option" where
  "some_quantity s = (if s = '''' \<or> s = ''lots'' then None else Some s)"

text \<open>
  The spec's scenario 2 (\<open>TestGetLogForNotRunningPod\<close>): pod \<open>p2\<close> in \<open>Waiting\<close> and a Log
  record for it; and a node object as the virtual kubelet hands it to \<open>ConfigureNode\<close>.
\<close>

definition waiting_pod :: Pod where
  "waiting_pod = \<lparr>pod_Name = ''p2'', pod_UID = ''uid-p2'', Phase = PodWaiting,
     BoundNodeName = ''''\<rparr>"

definition old_pod_log :: LogFile where
  "old_pod_log = \<lparr>log_Name = ''p2-log'', ParentObject = ToObjectReference waiting_pod,
     Content = ''Old pod log lines''\<rparr>"

definition log_test_server :: InstanceProvider where
  "log_test_server =
     \<lparr>KV_Pod = [''p2'' \<mapsto> waiting_pod], KV_Node = Map.empty, KV_Log = [''p2'' \<mapsto> old_pod_log],
      ItzoClientFactory = (\<lambda>addresses. Inr ''logs''),
      nodeName = ''virtual-kubelet'', operatingSystem = '''', internalIP = ''10.0.0.7'',
      daemonEndpointPort = 10250,
      config = \<lparr>CPU = ''20'', Memory = ''100Gi'', Pods = ''20''\<rparr>, startTime = 0\<rparr>"

definition bare_node :: "string v1_Node" where
  "bare_node =
     \<lparr>v1node_Name = ''virtual-kubelet'',
      v1node_Status =
        \<lparr>Capacity = Map.empty, Allocatable = Map.empty, Conditions = [], Addresses = [],
         DaemonEndpoints = \<lparr>KubeletEndpoint = \<lparr>Port = 0\<rparr>\<rparr>,
         NodeInfo = \<lparr>MachineID = ''m-1'', KernelVersion = ''5.4'', OperatingSystem = '''',
                     Architecture = ''''\<rparr>\<rparr>\<rparr>"

text \<open>A provider configured with quantities that are not the defaults.\<close>

definition kubelet_provider :: InstanceProvider where
  "kubelet_provider =
     \<lparr>KV_Pod = Map.empty, KV_Node = Map.empty, KV_Log = Map.empty,
      ItzoClientFactory = (\<lambda>addresses. Inr ''logs''),
      nodeName = ''virtual-kubelet'', operatingSystem = '''', internalIP = ''10.0.0.7'',
      daemonEndpointPort = 10250,
      config = \<lparr>CPU = ''8'', Memory = ''32Gi'', Pods = ''10''\<rparr>, startTime = 0\<rparr>"

section \<open>Properties of the event list filter\<close>

lemma mset_insert_by: "mset (insert_by lt x xs) = add_mset x (mset xs)"
  by (induction xs) auto

lemma set_insert_by: "set (insert_by lt x xs) = insert x (set xs)"
  by (induction xs) auto

lemma sorted_insert_by:
  assumes "strict_weak_ordering lt" and "sorted_wrt (\<lambda>a b. \<not> lt b a) xs"
  shows "sorted_wrt (\<lambda>a b. \<not> lt b a) (insert_by lt x xs)"
  using assms(2)
proof (induction xs)
  case Nil
  then show ?case by simp
next
  case (Cons y ys)
  have irrefl: "\<And>a. \<not> lt a a" and trans: "\<And>a b c. lt a b \<Longrightarrow> lt b c \<Longrightarrow> lt a c"
    using assms(1) unfolding strict_weak_ordering_def by blast+
  show ?case
  proof (cases "lt x y")
    case True
    have "\<not> lt y x" using True irrefl trans by blast
    moreover have "\<forall>z \<in> set ys. \<not> lt z x"
      using Cons.prems True trans by auto
    ultimately show ?thesis using True Cons.prems by simp
  next
    case False
    then show ?thesis using Cons by (auto simp: set_insert_by)
  qed
qed

lemma mset_insertion_sort: "mset (insertion_sort lt xs) = mset xs"
  by (induction xs) (auto simp: mset_insert_by)

lemma sorted_insertion_sort:
  "strict_weak_ordering lt \<Longrightarrow> sorted_wrt (\<lambda>a b. \<not> lt b a) (insertion_sort lt xs)"
  by (induction xs) (auto simp: sorted_insert_by)

lemma insertion_sort_contract: "sortSlice_contract insertion_sort"
  unfolding sortSlice_contract_def
  by (simp add: mset_insertion_sort sorted_insertion_sort)

lemma before_strict_weak_ordering:
  "strict_weak_ordering (\<lambda>i j. Before (CreationTimestamp i) (CreationTimestamp j))"
  unfolding strict_weak_ordering_def Before_def by auto

lemma contract_sorts_by_timestamp:
  assumes "sortSlice_contract sortSlice"
  shows "mset (sortSlice (\<lambda>i j. Before (CreationTimestamp i) (CreationTimestamp j)) xs) = mset xs"
    and "sorted (map CreationTimestamp
           (sortSlice (\<lambda>i j. Before (CreationTimestamp i) (CreationTimestamp j)) xs))"
proof -
  let ?cmp = "\<lambda>i j. Before (CreationTimestamp i) (CreationTimestamp j)"
  have c: "mset (sortSlice ?cmp xs) = mset xs
        \<and> sorted_wrt (\<lambda>a b. \<not> ?cmp b a) (sortSlice ?cmp xs)"
    using assms before_strict_weak_ordering unfolding sortSlice_contract_def by blast
  then show "mset (sortSlice ?cmp xs) = mset xs" by simp
  have "sorted_wrt (\<lambda>a b. CreationTimestamp a \<le> CreationTimestamp b) (sortSlice ?cmp xs)"
  proof (rule sorted_wrt_mono_rel)
    show "sorted_wrt (\<lambda>a b. \<not> ?cmp b a) (sortSlice ?cmp xs)"
      using c by simp
  next
    fix a b
    assume "\<not> Before (CreationTimestamp b) (CreationTimestamp a)"
    then show "CreationTimestamp a \<le> CreationTimestamp b"
      by (simp add: Before_def)
  qed
  then show "sorted (map CreationTimestamp (sortSlice ?cmp xs))"
    by (simp add: sorted_map)
qed

lemma contract_length:
  "sortSlice_contract sortSlice \<Longrightarrow>
   length (sortSlice (\<lambda>i j. Before (CreationTimestamp i) (CreationTimestamp j)) xs) = length xs"
  by (metis contract_sorts_by_timestamp(1) size_mset)

lemma newest_tail:
  assumes "sorted (map f s)"
  shows "\<forall>a \<in> set (take k s). \<forall>b \<in> set (drop k s). f a \<le> f b"
proof -
  have "sorted (map f (take k s) @ map f (drop k s))"
    using assms by (simp flip: map_append)
  then show ?thesis by (auto simp: sorted_append)
qed

lemma mset_take_drop: "mset s = mset (take k s) + mset (drop k s)"
  by (metis append_take_drop_id mset_append)

lemma long_event_list_length: "int (length (Items long_event_list)) > MaxEventListSize"
  by (simp add: long_event_list_def MaxEventListSize_def)

text \<open>
  Claim C1. When the list holds more than \<open>MaxEventListSize\<close> items, \<open>filterEventList\<close>
  returns the same list object with its items replaced by the tail of the items sorted
  ascending by \<open>CreationTimestamp\<close>: exactly \<open>MaxEventListSize\<close> of the original items are
  kept, and every item that was dropped is at most as new as every item that was kept.
  The order comes from the comparison \<open>CreationTimestamp.Before\<close> that \<open>filterEventList\<close>
  hands to \<open>sort.Slice\<close>; of \<open>sort.Slice\<close> only the contract of the library is assumed.
\<close>

theorem filterEventList_keeps_newest:
  assumes srt: "sortSlice_contract sortSlice"
    and big: "int (length (Items l)) > MaxEventListSize"
  shows "\<exists>r. filterEventList sortSlice (Some l) = Some r
     \<and> r = l\<lparr>Items := drop (length (Items l) - nat MaxEventListSize)
               (sortSlice (\<lambda>i j. Before (CreationTimestamp i) (CreationTimestamp j))
                  (Items l))\<rparr>
     \<and> int (length (Items r)) = MaxEventListSize
     \<and> sorted (map CreationTimestamp
          (sortSlice (\<lambda>i j. Before (CreationTimestamp i) (CreationTimestamp j)) (Items l)))
     \<and> mset (Items r) \<subseteq># mset (Items l)
     \<and> (\<forall>old \<in># mset (Items l) - mset (Items r). \<forall>new \<in> set (Items r).
           CreationTimestamp old \<le> CreationTimestamp new)"
proof -
  define s where
    "s = sortSlice (\<lambda>i j. Before (CreationTimestamp i) (CreationTimestamp j)) (Items l)"
  define k where "k = length (Items l) - nat MaxEventListSize"
  have len: "length s = length (Items l)"
    using srt by (simp add: s_def contract_length)
  have ms: "mset s = mset (Items l)" and so: "sorted (map CreationTimestamp s)"
    using srt by (simp_all add: s_def contract_sorts_by_timestamp)
  have start: "nat (int (length s) - MaxEventListSize) = k"
    using big by (simp add: len k_def MaxEventListSize_def)
  have res: "filterEventList sortSlice (Some l) = Some (l\<lparr>Items := drop k s\<rparr>)"
    using big start by (simp add: filterEventList_def Let_def s_def)
  have n: "int (length (drop k s)) = MaxEventListSize"
    using big by (simp add: len k_def MaxEventListSize_def)
  have split: "mset (Items l) = mset (take k s) + mset (drop k s)"
    using mset_take_drop [of s k] by (simp add: ms)
  have sub: "mset (drop k s) \<subseteq># mset (Items l)"
    by (simp add: split)
  have old: "mset (Items l) - mset (drop k s) = mset (take k s)"
    by (simp add: split)
  have newest: "\<forall>a \<in># mset (Items l) - mset (drop k s). \<forall>b \<in> set (drop k s).
      CreationTimestamp a \<le> CreationTimestamp b"
    using newest_tail [OF so, of k] by (simp add: old)
  show ?thesis
    using res n sub newest so by (simp add: s_def k_def)
qed

lemma long_event_list_distinct: "distinct (Items long_event_list)"
  by (auto simp: long_event_list_def distinct_map event_at_def inj_on_def)

lemma long_event_list_oldest: "event_at 0 \<in> set (Items long_event_list)"
proof -
  have "event_at (4000 - int 4000) \<in> (\<lambda>i. event_at (4000 - int i)) ` set [0..<4001]"
    by (rule imageI) simp
  then show ?thesis by (simp add: long_event_list_def)
qed

lemma oldest_not_in_tail:
  assumes ms: "mset s = mset (Items long_event_list)"
    and so: "sorted (map CreationTimestamp s)"
  shows "event_at 0 \<notin> set (drop 1 s)"
proof
  assume in_tail: "event_at 0 \<in> set (drop 1 s)"
  have d: "distinct s"
    using ms long_event_list_distinct by (metis mset_eq_imp_distinct_iff)
  have "s \<noteq> []" using in_tail by auto
  then obtain h t where s: "s = h # t" by (cases s) auto
  have t: "event_at 0 \<in> set t" using in_tail s by simp
  have ne: "h \<noteq> event_at 0" using d s t by auto
  have le: "CreationTimestamp h \<le> 0"
    using so s t by (auto simp: event_at_def)
  have "h \<in> set (Items long_event_list)"
    using ms s by (metis list.set_intros(1) mset_eq_setD)
  then obtain i where i: "h = event_at (4000 - int i)" "i < 4001"
    by (auto simp: long_event_list_def)
  have "4000 - int i \<le> 0" using le i by (simp add: event_at_def)
  then have "4000 - int i = 0" using i by simp
  then show False using ne i by simp
qed

theorem filterEventList_keeps_newest_witness:
  "sortSlice_contract insertion_sort
   \<and> int (length (Items long_event_list)) > MaxEventListSize
   \<and> (\<exists>r. filterEventList insertion_sort (Some long_event_list) = Some r
        \<and> int (length (Items r)) = 4000
        \<and> mset (Items r) \<subseteq># mset (Items long_event_list)
        \<and> event_at 0 \<in> set (Items long_event_list)
        \<and> event_at 0 \<notin> set (Items r)
        \<and> (\<forall>old \<in># mset (Items long_event_list) - mset (Items r). \<forall>new \<in> set (Items r).
              CreationTimestamp old \<le> CreationTimestamp new))"
proof -
  let ?cmp = "\<lambda>i j. Before (CreationTimestamp i) (CreationTimestamp j)"
  let ?s = "insertion_sort ?cmp (Items long_event_list)"
  obtain r where r: "filterEventList insertion_sort (Some long_event_list) = Some r"
    and items: "r = long_event_list\<lparr>Items :=
        drop (length (Items long_event_list) - nat MaxEventListSize) ?s\<rparr>"
    and len: "int (length (Items r)) = MaxEventListSize"
    and so: "sorted (map CreationTimestamp ?s)"
    and sub: "mset (Items r) \<subseteq># mset (Items long_event_list)"
    and newest: "\<forall>old \<in># mset (Items long_event_list) - mset (Items r). \<forall>new \<in> set (Items r).
              CreationTimestamp old \<le> CreationTimestamp new"
    using filterEventList_keeps_newest [OF insertion_sort_contract long_event_list_length]
    by blast
  have k: "length (Items long_event_list) - nat MaxEventListSize = 1"
    by (simp add: long_event_list_def MaxEventListSize_def)
  have "Items r = drop 1 ?s"
    using items k by simp
  moreover have "event_at 0 \<notin> set (drop 1 ?s)"
    using mset_insertion_sort so by (rule oldest_not_in_tail)
  ultimately have dropped: "event_at 0 \<notin> set (Items r)"
    by simp
  show ?thesis
    using insertion_sort_contract long_event_list_length r len sub newest dropped
      long_event_list_oldest
    by (auto simp: MaxEventListSize_def)
qed

text \<open>
  Claim C2. \<open>filterEventList\<close> is idempotent, and on a non-nil list the output has
  \<open>min (len list.Items) MaxEventListSize\<close> items, where \<open>MaxEventListSize\<close> is 4000.
\<close>

theorem filterEventList_idempotent_size:
  assumes srt: "sortSlice_contract sortSlice"
  shows "filterEventList sortSlice (filterEventList sortSlice eventList)
           = filterEventList sortSlice eventList
     \<and> (\<exists>r. filterEventList sortSlice (Some l) = Some r
          \<and> int (length (Items r)) = min (int (length (Items l))) MaxEventListSize)
     \<and> MaxEventListSize = 4000"
proof -
  have len: "\<And>xs. length (sortSlice (\<lambda>i j. Before (CreationTimestamp i) (CreationTimestamp j)) xs)
      = length xs"
    using srt by (rule contract_length)
  have idem: "filterEventList sortSlice (filterEventList sortSlice eventList)
           = filterEventList sortSlice eventList"
    by (cases eventList) (simp_all add: filterEventList_def Let_def len MaxEventListSize_def)
  have size: "\<exists>r. filterEventList sortSlice (Some l) = Some r
          \<and> int (length (Items r)) = min (int (length (Items l))) MaxEventListSize"
    by (simp add: filterEventList_def Let_def len MaxEventListSize_def) arith
  show ?thesis
    using idem size by (simp add: MaxEventListSize_def)
qed

theorem filterEventList_idempotent_size_witness:
  "sortSlice_contract insertion_sort
   \<and> filterEventList insertion_sort (filterEventList insertion_sort (Some long_event_list))
       = filterEventList insertion_sort (Some long_event_list)
   \<and> (\<exists>r. filterEventList insertion_sort (Some short_event_list) = Some r
        \<and> length (Items r) = 2)"
  using filterEventList_idempotent_size [OF insertion_sort_contract,
      of "Some long_event_list" short_event_list]
    insertion_sort_contract
  by (auto simp: short_event_list_def MaxEventListSize_def)

text \<open>
  Claim C9. \<open>filterReplyObject\<close> returns every object that is not a \<open>*api.EventList\<close>
  as it is, and passes an \<open>*api.EventList\<close> through \<open>filterEventList\<close>.
\<close>

theorem filterReplyObject_identity_on_others:
  "((\<forall>v. obj \<noteq> EventListPtr v) \<longrightarrow> filterReplyObject sortSlice obj = obj)
   \<and> filterReplyObject sortSlice (EventListPtr v) = EventListPtr (filterEventList sortSlice v)"
  by (cases obj) simp_all

theorem filterReplyObject_identity_on_others_witness:
  "(\<forall>v. OtherObject ''Pod'' \<noteq> EventListPtr v)
   \<and> filterReplyObject insertion_sort (OtherObject ''Pod'') = OtherObject ''Pod''"
  using filterReplyObject_identity_on_others
    [of "OtherObject ''Pod''" insertion_sort]
  by simp

section \<open>The cluster region is immutable once set\<close>

lemma sublist_mid: "sublist x (a @ x @ b)"
  by (auto simp: sublist_def)

lemma region_message_names_both:
  "sublist s (a @ s @ b @ r @ c) \<and> sublist r (a @ s @ b @ r @ c)"
proof
  show "sublist s (a @ s @ b @ r @ c)" by (rule sublist_mid)
  have "sublist r ((a @ s @ b) @ r @ c)" by (rule sublist_mid)
  then show "sublist r (a @ s @ b @ r @ c)" by simp
qed

text \<open>
  Claim C3, as stated, fails: \<open>ensureRegionUnchanged\<close> also returns an error when the store
  cannot be reached, although no region is stored. Here the store is empty and every
  request to it fails with \<open>context deadline exceeded\<close>.
\<close>

theorem ensureRegionUnchanged_store_failure_counterexample:
  "fst (ensureRegionUnchanged \<lparr>kv = Map.empty, unreachable = Some ''context deadline exceeded''\<rparr>
        ''us-east-1'') = Some (ErrStore ''context deadline exceeded'')
   \<and> kv \<lparr>kv = Map.empty, unreachable = Some ''context deadline exceeded''\<rparr>
        etcdClusterRegionPath = None"
  by (simp add: ensureRegionUnchanged_def Get_def)

text \<open>
  Claim C3, amended. While the store answers, \<open>ensureRegionUnchanged\<close> returns an error if
  and only if a region is stored and differs from the cloud-reported one, and the message
  of that error contains both regions; with no region stored it writes the cloud-reported
  region and succeeds; with the same region stored it succeeds and writes nothing. When
  the store cannot be reached, the error of the store is returned and nothing is written.
\<close>

theorem ensureRegionUnchanged_reachable_store:
  "(unreachable c = None \<longrightarrow>
      ((fst (ensureRegionUnchanged c region) \<noteq> None)
         = (\<exists>s. kv c etcdClusterRegionPath = Some s \<and> s \<noteq> region))
    \<and> (\<forall>s. kv c etcdClusterRegionPath = Some s \<and> s \<noteq> region \<longrightarrow>
          (\<exists>msg. ensureRegionUnchanged c region = (Some (Errorf msg), c)
             \<and> sublist s msg \<and> sublist region msg))
    \<and> (kv c etcdClusterRegionPath = None \<longrightarrow>
          ensureRegionUnchanged c region
            = (None, c\<lparr>kv := (kv c)(etcdClusterRegionPath \<mapsto> region)\<rparr>))
    \<and> (kv c etcdClusterRegionPath = Some region \<longrightarrow>
          ensureRegionUnchanged c region = (None, c)))
   \<and> (\<forall>msg. unreachable c = Some msg \<longrightarrow>
          ensureRegionUnchanged c region = (Some (ErrStore msg), c))"
proof (intro conjI impI allI)
  assume up: "unreachable c = None"
  show "(fst (ensureRegionUnchanged c region) \<noteq> None)
         = (\<exists>s. kv c etcdClusterRegionPath = Some s \<and> s \<noteq> region)"
    using up by (cases "kv c etcdClusterRegionPath")
      (auto simp: ensureRegionUnchanged_def Get_def AtomicPut_def)
next
  fix s
  assume up: "unreachable c = None"
    and st: "kv c etcdClusterRegionPath = Some s \<and> s \<noteq> region"
  let ?msg = "''Error: region has changed from '' @ s @ '' to '' @ region
                @ ''. '' @ ''This is unsupported. ''
                @ ''Please delete all cluster resources and rename your cluster.''"
  have "ensureRegionUnchanged c region = (Some (Errorf ?msg), c)"
    using up st by (auto simp: ensureRegionUnchanged_def Get_def)
  moreover have "sublist s ?msg \<and> sublist region ?msg"
    by (rule region_message_names_both)
  ultimately show "\<exists>msg. ensureRegionUnchanged c region = (Some (Errorf msg), c)
             \<and> sublist s msg \<and> sublist region msg"
    by blast
next
  assume "unreachable c = None" "kv c etcdClusterRegionPath = None"
  then show "ensureRegionUnchanged c region
            = (None, c\<lparr>kv := (kv c)(etcdClusterRegionPath \<mapsto> region)\<rparr>)"
    by (simp add: ensureRegionUnchanged_def Get_def AtomicPut_def)
next
  assume "unreachable c = None" "kv c etcdClusterRegionPath = Some region"
  then show "ensureRegionUnchanged c region = (None, c)"
    by (simp add: ensureRegionUnchanged_def Get_def)
next
  fix msg assume "unreachable c = Some msg"
  then show "ensureRegionUnchanged c region = (Some (ErrStore msg), c)"
    by (simp add: ensureRegionUnchanged_def Get_def)
qed

theorem ensureRegionUnchanged_reachable_store_witness:
  "unreachable scenario_store = None
   \<and> kv scenario_store etcdClusterRegionPath = Some ''us-east-1''
   \<and> fst (ensureRegionUnchanged scenario_store ''us-west-2'') \<noteq> None
   \<and> (\<exists>msg. ensureRegionUnchanged scenario_store ''us-west-2''
          = (Some (Errorf msg), scenario_store)
        \<and> sublist ''us-east-1'' msg \<and> sublist ''us-west-2'' msg)"
proof -
  have up: "unreachable scenario_store = None"
    and st: "kv scenario_store etcdClusterRegionPath = Some ''us-east-1''"
    by (simp_all add: scenario_store_def)
  have ne: "''us-east-1'' \<noteq> ''us-west-2''" by simp
  show ?thesis
    using ensureRegionUnchanged_reachable_store [of scenario_store "''us-west-2''"] up st ne
    by blast
qed

section \<open>Loading the provider configuration\<close>

lemma loadProviderConfig_filled:
  assumes "readFile path = Inr data" "unmarshal data = Inr configMap"
  shows "fst (loadProviderConfig readFile unmarshal parseQuantity path node)
       = filled_with_defaults (case configMap node of
                                 Some c \<Rightarrow> c | None \<Rightarrow> zeroProviderConfig)"
  using assms
  by (simp add: loadProviderConfig_def Let_def filled_with_defaults_def
      defaultCPUCapacity_def defaultMemoryCapacity_def defaultPodCapacity_def)

lemma loadProviderConfig_error_iff:
  assumes "readFile path = Inr data" "unmarshal data = Inr configMap"
  shows "(snd (loadProviderConfig readFile unmarshal parseQuantity path node) \<noteq> None)
       = (let c = fst (loadProviderConfig readFile unmarshal parseQuantity path node)
          in parseQuantity (CPU c) = None \<or> parseQuantity (Memory c) = None
             \<or> parseQuantity (Pods c) = None)"
  using assms by (simp add: loadProviderConfig_def Let_def)

text \<open>
  Claim C5, amended. For every readable provider config file whose content decodes as a
  JSON map from node names to configs, \<open>loadProviderConfig\<close> returns the entry of the given
  node (the zero config when the node has no entry) with every empty field filled with the
  defaults \<open>"20"\<close>, \<open>"100Gi"\<close>, \<open>"20"\<close>, and it returns an error exactly when one of the
  three fields of that result does not parse as a resource quantity. For a readable file
  whose content does not decode, it returns the decoding error and the zero config.
\<close>

theorem loadProviderConfig_parsable_file:
  "(readFile path = Inr data \<and> unmarshal data = Inr configMap \<longrightarrow>
      (\<exists>c err. loadProviderConfig readFile unmarshal parseQuantity path node = (c, err)
         \<and> c = filled_with_defaults (case configMap node of
                                       Some e \<Rightarrow> e | None \<Rightarrow> zeroProviderConfig)
         \<and> (configMap node = None \<longrightarrow> c = \<lparr>CPU = ''20'', Memory = ''100Gi'', Pods = ''20''\<rparr>)
         \<and> ((err \<noteq> None) = (parseQuantity (CPU c) = None \<or> parseQuantity (Memory c) = None
                             \<or> parseQuantity (Pods c) = None))))
   \<and> (readFile path = Inr data \<and> unmarshal data = Inl e \<longrightarrow>
        loadProviderConfig readFile unmarshal parseQuantity path node
          = (zeroProviderConfig, Some e))"
proof (intro conjI impI)
  assume a: "readFile path = Inr data \<and> unmarshal data = Inr configMap"
  obtain c err where r:
    "loadProviderConfig readFile unmarshal parseQuantity path node = (c, err)"
    by (cases "loadProviderConfig readFile unmarshal parseQuantity path node")
  have c: "c = filled_with_defaults (case configMap node of
                                       Some e \<Rightarrow> e | None \<Rightarrow> zeroProviderConfig)"
    using loadProviderConfig_filled [of readFile path data unmarshal configMap parseQuantity node]
      a r by simp
  have d: "configMap node = None \<longrightarrow> c = \<lparr>CPU = ''20'', Memory = ''100Gi'', Pods = ''20''\<rparr>"
    by (simp add: c filled_with_defaults_def zeroProviderConfig_def)
  have e: "(err \<noteq> None) = (parseQuantity (CPU c) = None \<or> parseQuantity (Memory c) = None
                             \<or> parseQuantity (Pods c) = None)"
    using loadProviderConfig_error_iff [of readFile path data unmarshal configMap parseQuantity node]
      a r by (simp add: Let_def)
  show "\<exists>c err. loadProviderConfig readFile unmarshal parseQuantity path node = (c, err)
         \<and> c = filled_with_defaults (case configMap node of
                                       Some e \<Rightarrow> e | None \<Rightarrow> zeroProviderConfig)
         \<and> (configMap node = None \<longrightarrow> c = \<lparr>CPU = ''20'', Memory = ''100Gi'', Pods = ''20''\<rparr>)
         \<and> ((err \<noteq> None) = (parseQuantity (CPU c) = None \<or> parseQuantity (Memory c) = None
                             \<or> parseQuantity (Pods c) = None))"
  proof (intro exI conjI)
    show "loadProviderConfig readFile unmarshal parseQuantity path node = (c, err)"
      by (rule r)
    show "c = filled_with_defaults (case configMap node of
                                       Some e \<Rightarrow> e | None \<Rightarrow> zeroProviderConfig)"
      by (rule c)
    show "configMap node = None \<longrightarrow> c = \<lparr>CPU = ''20'', Memory = ''100Gi'', Pods = ''20''\<rparr>"
      by (rule d)
    show "(err \<noteq> None) = (parseQuantity (CPU c) = None \<or> parseQuantity (Memory c) = None
                             \<or> parseQuantity (Pods c) = None)"
      by (rule e)
  qed
next
  assume "readFile path = Inr data \<and> unmarshal data = Inl e"
  then show "loadProviderConfig readFile unmarshal parseQuantity path node
          = (zeroProviderConfig, Some e)"
    by (simp add: loadProviderConfig_def)
qed

theorem loadProviderConfig_parsable_file_witness:
  "provider_file ''/etc/kip/provider.json'' = Inr ''{\"node-1\": {\"cpu\": \"8\"}}''
   \<and> provider_json ''{\"node-1\": {\"cpu\": \"8\"}}''
        = Inr [''node-1'' \<mapsto> \<lparr>CPU = ''8'', Memory = '''', Pods = ''''\<rparr>]
   \<and> loadProviderConfig provider_file provider_json some_quantity
        ''/etc/kip/provider.json'' ''node-1''
       = (\<lparr>CPU = ''8'', Memory = ''100Gi'', Pods = ''20''\<rparr>, None)"
proof -
  have f: "provider_file ''/etc/kip/provider.json'' = Inr ''{\"node-1\": {\"cpu\": \"8\"}}''"
    by (simp add: provider_file_def)
  have j: "provider_json ''{\"node-1\": {\"cpu\": \"8\"}}''
        = Inr [''node-1'' \<mapsto> \<lparr>CPU = ''8'', Memory = '''', Pods = ''''\<rparr>]"
    by (simp add: provider_json_def)
  show ?thesis
    using loadProviderConfig_parsable_file [of provider_file "''/etc/kip/provider.json''"
        "''{\"node-1\": {\"cpu\": \"8\"}}''" provider_json
        "[''node-1'' \<mapsto> \<lparr>CPU = ''8'', Memory = '''', Pods = ''''\<rparr>]" some_quantity "''node-1''"]
      f j
    by (auto simp: filled_with_defaults_def some_quantity_def)
qed

text \<open>
  Claim C5, as stated, fails on a readable file that is not JSON: the file holds \<open>{\<close>,
  \<open>json.Unmarshal\<close> rejects it, and \<open>loadProviderConfig\<close> returns the error with a config
  whose fields are empty, not the defaults.
\<close>

theorem loadProviderConfig_unparsable_counterexample:
  "broken_file ''/etc/kip/provider.json'' = Inr ''{''
   \<and> provider_json ''{'' = Inl (ErrJSON ''unexpected end of JSON input'')
   \<and> loadProviderConfig broken_file provider_json some_quantity
        ''/etc/kip/provider.json'' ''node-1''
       = (\<lparr>CPU = '''', Memory = '''', Pods = ''''\<rparr>,
          Some (ErrJSON ''unexpected end of JSON input''))"
  by (simp add: loadProviderConfig_def broken_file_def provider_json_def zeroProviderConfig_def)


section \<open>Logs of pods that are not running\<close>

text \<open>
  Claim C4. For a pod of the Pod registry that is not in the \<open>Running\<close> phase, and a Log
  record stored for it with that pod as \<open>ParentObject\<close>, \<open>findLog podName "" 0 0\<close> succeeds
  and returns that record, so its content, and contacts no node agent.
\<close>

theorem findLog_not_running_from_registry:
  assumes "KV_Pod s podName = Some pod"
    and "Phase pod \<noteq> PodRunning"
    and "KV_Log s podName = Some l"
    and "ParentObject l = ToObjectReference pod"
  shows "findLog s podName '''' 0 0 = (Inr l, [])
     \<and> (\<exists>r. fst (findLog s podName '''' 0 0) = Inr r \<and> Content r = Content l)"
  using assms by (simp add: findLog_def logFromRegistry_def)

theorem findLog_not_running_from_registry_witness:
  "KV_Pod log_test_server ''p2'' = Some waiting_pod
   \<and> Phase waiting_pod \<noteq> PodRunning
   \<and> KV_Log log_test_server ''p2'' = Some old_pod_log
   \<and> ParentObject old_pod_log = ToObjectReference waiting_pod
   \<and> findLog log_test_server ''p2'' '''' 0 0 = (Inr old_pod_log, [])
   \<and> Content old_pod_log = ''Old pod log lines''"
proof -
  have a: "KV_Pod log_test_server ''p2'' = Some waiting_pod"
    and b: "Phase waiting_pod \<noteq> PodRunning"
    and c: "KV_Log log_test_server ''p2'' = Some old_pod_log"
    and d: "ParentObject old_pod_log = ToObjectReference waiting_pod"
    and e: "Content old_pod_log = ''Old pod log lines''"
    by (simp_all add: log_test_server_def waiting_pod_def old_pod_log_def)
  show ?thesis
    using findLog_not_running_from_registry [OF a b c d] a b c d e by simp
qed

section \<open>Node status of the virtual kubelet\<close>

text \<open>
  Claim C6. Whatever the provider and the clock, \<open>nodeConditions\<close> reports \<open>Ready\<close> with
  status \<open>True\<close> and \<open>OutOfDisk\<close>, \<open>MemoryPressure\<close>, \<open>DiskPressure\<close> and
  \<open>NetworkUnavailable\<close> with status \<open>False\<close>, and no other condition.
\<close>

theorem nodeConditions_fixed:
  "map (\<lambda>c. (cond_Type c, cond_Status c)) (nodeConditions p now)
     = [(''Ready'', ConditionTrue), (''OutOfDisk'', ConditionFalse),
        (''MemoryPressure'', ConditionFalse), (''DiskPressure'', ConditionFalse),
        (''NetworkUnavailable'', ConditionFalse)]"
  by (simp add: nodeConditions_def)

section \<open>The intervals of the controllers\<close>

text \<open>
  Claim C7. The intervals that \<open>NewInstanceProvider\<close> configures are 7 s, 10 s and 10 s for
  the node controller's pool, heartbeat and reaper ticks, and 60 s and 10 s for the garbage
  controller's instance and terminated-pod cleaning; as \<open>int64\<close> nanoseconds they do not
  overflow.
\<close>

theorem controller_intervals:
  "PoolInterval (nodeControllerConfig itzoVersion itzoURL) = 7 * Second
   \<and> HeartbeatInterval (nodeControllerConfig itzoVersion itzoURL) = 10 * Second
   \<and> ReaperInterval (nodeControllerConfig itzoVersion itzoURL) = 10 * Second
   \<and> CleanInstancesInterval garbageControllerConfig = 60 * Second
   \<and> CleanTerminatedInterval garbageControllerConfig = 10 * Second
   \<and> sint Second = 1000000000
   \<and> sint (PoolInterval (nodeControllerConfig itzoVersion itzoURL)) = 7 * 1000000000
   \<and> sint (HeartbeatInterval (nodeControllerConfig itzoVersion itzoURL)) = 10 * 1000000000
   \<and> sint (ReaperInterval (nodeControllerConfig itzoVersion itzoURL)) = 10 * 1000000000
   \<and> sint (CleanInstancesInterval garbageControllerConfig) = 60 * 1000000000
   \<and> sint (CleanTerminatedInterval garbageControllerConfig) = 10 * 1000000000"
  by (simp add: nodeControllerConfig_def garbageControllerConfig_def Second_def
      Millisecond_def Microsecond_def Nanosecond_def)

section \<open>The pod lifecycle callbacks are stubs\<close>

text \<open>
  Claim C8, as stated, fails on a nil pod: \<open>CreatePod\<close> reads \<open>pod.Namespace\<close> for the trace
  span before it returns, so on the nil \<open>*v1.Pod\<close> it panics and returns no error.
\<close>

theorem lifecycle_callbacks_nil_pod_counterexample:
  "CreatePod kubelet_provider [] None = Inl NilPointerDereference
   \<and> CreatePod kubelet_provider [] None \<noteq> Inr (Some (Errorf ''not implemented''))"
  by (simp add: CreatePod_def)

text \<open>
  Claim C8, amended. For every provider, context and non-nil pod, \<open>CreatePod\<close>, \<open>UpdatePod\<close>
  and \<open>DeletePod\<close> return the error \<open>not implemented\<close>; for every input, \<open>GetPod\<close>,
  \<open>GetContainerLogs\<close>, \<open>RunInContainer\<close>, \<open>GetPodStatus\<close> and \<open>GetPods\<close> return that error,
  the getters with no result. On a nil pod, \<open>CreatePod\<close>, \<open>UpdatePod\<close> and \<open>DeletePod\<close>
  panic with a nil pointer dereference.
\<close>

theorem lifecycle_callbacks_not_implemented:
  "CreatePod p ctx (Some pod) = Inr (Some (Errorf ''not implemented''))
   \<and> UpdatePod p ctx (Some pod) = Inr (Some (Errorf ''not implemented''))
   \<and> DeletePod p ctx (Some pod) = Inr (Some (Errorf ''not implemented''))
   \<and> GetPod p ctx namespace name = (None, Some (Errorf ''not implemented''))
   \<and> GetContainerLogs p ctx namespace podName containerName opts
        = (None, Some (Errorf ''not implemented''))
   \<and> RunInContainer p ctx namespace podName containerName cmd attach
        = Some (Errorf ''not implemented'')
   \<and> GetPodStatus p ctx namespace name = (None, Some (Errorf ''not implemented''))
   \<and> GetPods p ctx = ([], Some (Errorf ''not implemented''))
   \<and> CreatePod p ctx None = Inl NilPointerDereference
   \<and> UpdatePod p ctx None = Inl NilPointerDereference
   \<and> DeletePod p ctx None = Inl NilPointerDereference"
  by (simp add: CreatePod_def UpdatePod_def DeletePod_def GetPod_def GetContainerLogs_def
      RunInContainer_def GetPodStatus_def GetPods_def Let_def)

section \<open>Configuring the node\<close>

lemma capacity_Some:
  assumes "parseQuantity (CPU (config p)) = Some c" "parseQuantity (Memory (config p)) = Some m"
    "parseQuantity (Pods (config p)) = Some k"
  shows "capacity parseQuantity p = Some [''cpu'' \<mapsto> c, ''memory'' \<mapsto> m, ''pods'' \<mapsto> k]"
  using assms by (simp add: capacity_def)

lemma capacity_SomeD:
  assumes "capacity parseQuantity p = Some cap"
  shows "\<exists>c m k. parseQuantity (CPU (config p)) = Some c
     \<and> parseQuantity (Memory (config p)) = Some m
     \<and> parseQuantity (Pods (config p)) = Some k
     \<and> cap = [''cpu'' \<mapsto> c, ''memory'' \<mapsto> m, ''pods'' \<mapsto> k]"
  using assms by (auto simp: capacity_def split: option.splits)

lemma ConfigureNode_Some:
  assumes "ConfigureNode parseQuantity now p n = Some n'"
  shows "\<exists>cap nd. capacity parseQuantity p = Some cap \<and> n = Some nd
     \<and> n' = nd\<lparr>v1node_Status := (v1node_Status nd)
          \<lparr>Capacity := cap, Allocatable := cap, Conditions := nodeConditions p now,
           Addresses := nodeAddresses p, DaemonEndpoints := nodeDaemonEndpoints p,
           NodeInfo := (NodeInfo (v1node_Status nd))
             \<lparr>OperatingSystem := (if operatingSystem p = '''' then ''Linux''
                                   else operatingSystem p),
              Architecture := ''amd64''\<rparr>\<rparr>\<rparr>"
  using assms by (auto simp: ConfigureNode_def Let_def split: option.splits)

text \<open>
  Claim C10. Whenever \<open>ConfigureNode\<close> returns on a node object, the node's
  \<open>Status.Capacity\<close> and \<open>Status.Allocatable\<close> are the same resource list, whose entries
  \<open>cpu\<close>, \<open>memory\<close> and \<open>pods\<close> are the parsed \<open>CPU\<close>, \<open>Memory\<close> and \<open>Pods\<close> of the provider
  config, and which is what \<open>capacity\<close> returns; the architecture is \<open>amd64\<close> and the
  operating system is the provider's, or \<open>Linux\<close> when that is empty. It returns whenever
  the three configured quantities parse.
\<close>

theorem ConfigureNode_allocatable_is_capacity:
  "(ConfigureNode parseQuantity now p (Some n) = Some n' \<longrightarrow>
      (\<exists>c m k. parseQuantity (CPU (config p)) = Some c
         \<and> parseQuantity (Memory (config p)) = Some m
         \<and> parseQuantity (Pods (config p)) = Some k
         \<and> Capacity (v1node_Status n') = [''cpu'' \<mapsto> c, ''memory'' \<mapsto> m, ''pods'' \<mapsto> k]
         \<and> Allocatable (v1node_Status n') = [''cpu'' \<mapsto> c, ''memory'' \<mapsto> m, ''pods'' \<mapsto> k])
      \<and> Allocatable (v1node_Status n') = Capacity (v1node_Status n')
      \<and> capacity parseQuantity p = Some (Capacity (v1node_Status n'))
      \<and> Architecture (NodeInfo (v1node_Status n')) = ''amd64''
      \<and> OperatingSystem (NodeInfo (v1node_Status n'))
          = (if operatingSystem p = '''' then ''Linux'' else operatingSystem p))
   \<and> (parseQuantity (CPU (config p)) \<noteq> None \<and> parseQuantity (Memory (config p)) \<noteq> None
        \<and> parseQuantity (Pods (config p)) \<noteq> None \<longrightarrow>
      ConfigureNode parseQuantity now p (Some n) \<noteq> None)"
proof -
  have post: "ConfigureNode parseQuantity now p (Some n) = Some n' \<longrightarrow>
      (\<exists>c m k. parseQuantity (CPU (config p)) = Some c
         \<and> parseQuantity (Memory (config p)) = Some m
         \<and> parseQuantity (Pods (config p)) = Some k
         \<and> Capacity (v1node_Status n') = [''cpu'' \<mapsto> c, ''memory'' \<mapsto> m, ''pods'' \<mapsto> k]
         \<and> Allocatable (v1node_Status n') = [''cpu'' \<mapsto> c, ''memory'' \<mapsto> m, ''pods'' \<mapsto> k])
      \<and> Allocatable (v1node_Status n') = Capacity (v1node_Status n')
      \<and> capacity parseQuantity p = Some (Capacity (v1node_Status n'))
      \<and> Architecture (NodeInfo (v1node_Status n')) = ''amd64''
      \<and> OperatingSystem (NodeInfo (v1node_Status n'))
          = (if operatingSystem p = '''' then ''Linux'' else operatingSystem p)"
  proof
    assume "ConfigureNode parseQuantity now p (Some n) = Some n'"
    from ConfigureNode_Some [OF this] obtain cap where
      cap: "capacity parseQuantity p = Some cap"
      and c: "Capacity (v1node_Status n') = cap" and a: "Allocatable (v1node_Status n') = cap"
      and arch: "Architecture (NodeInfo (v1node_Status n')) = ''amd64''"
      and os: "OperatingSystem (NodeInfo (v1node_Status n'))
          = (if operatingSystem p = '''' then ''Linux'' else operatingSystem p)"
      by auto
    from capacity_SomeD [OF cap] obtain cq mq kq where
      "parseQuantity (CPU (config p)) = Some cq" "parseQuantity (Memory (config p)) = Some mq"
      "parseQuantity (Pods (config p)) = Some kq"
      "cap = [''cpu'' \<mapsto> cq, ''memory'' \<mapsto> mq, ''pods'' \<mapsto> kq]"
      by blast
    then have "\<exists>c m k. parseQuantity (CPU (config p)) = Some c
         \<and> parseQuantity (Memory (config p)) = Some m
         \<and> parseQuantity (Pods (config p)) = Some k
         \<and> Capacity (v1node_Status n') = [''cpu'' \<mapsto> c, ''memory'' \<mapsto> m, ''pods'' \<mapsto> k]
         \<and> Allocatable (v1node_Status n') = [''cpu'' \<mapsto> c, ''memory'' \<mapsto> m, ''pods'' \<mapsto> k]"
      using c a by simp
    then show "(\<exists>c m k. parseQuantity (CPU (config p)) = Some c
         \<and> parseQuantity (Memory (config p)) = Some m
         \<and> parseQuantity (Pods (config p)) = Some k
         \<and> Capacity (v1node_Status n') = [''cpu'' \<mapsto> c, ''memory'' \<mapsto> m, ''pods'' \<mapsto> k]
         \<and> Allocatable (v1node_Status n') = [''cpu'' \<mapsto> c, ''memory'' \<mapsto> m, ''pods'' \<mapsto> k])
      \<and> Allocatable (v1node_Status n') = Capacity (v1node_Status n')
      \<and> capacity parseQuantity p = Some (Capacity (v1node_Status n'))
      \<and> Architecture (NodeInfo (v1node_Status n')) = ''amd64''
      \<and> OperatingSystem (NodeInfo (v1node_Status n'))
          = (if operatingSystem p = '''' then ''Linux'' else operatingSystem p)"
      using cap c a arch os by simp
  qed
  have returns: "parseQuantity (CPU (config p)) \<noteq> None
        \<and> parseQuantity (Memory (config p)) \<noteq> None
        \<and> parseQuantity (Pods (config p)) \<noteq> None \<longrightarrow>
      ConfigureNode parseQuantity now p (Some n) \<noteq> None"
  proof
    assume "parseQuantity (CPU (config p)) \<noteq> None
        \<and> parseQuantity (Memory (config p)) \<noteq> None
        \<and> parseQuantity (Pods (config p)) \<noteq> None"
    then obtain c m k where "parseQuantity (CPU (config p)) = Some c"
      "parseQuantity (Memory (config p)) = Some m" "parseQuantity (Pods (config p)) = Some k"
      by auto
    then have "capacity parseQuantity p = Some [''cpu'' \<mapsto> c, ''memory'' \<mapsto> m, ''pods'' \<mapsto> k]"
      by (rule capacity_Some)
    then show "ConfigureNode parseQuantity now p (Some n) \<noteq> None"
      by (simp add: ConfigureNode_def Let_def)
  qed
  show ?thesis
    using post returns by (rule conjI)
qed

theorem ConfigureNode_allocatable_is_capacity_witness:
  "(\<exists>n'. ConfigureNode some_quantity (\<lambda>k. 1600000000 + int k) kubelet_provider (Some bare_node)
        = Some n'
      \<and> Capacity (v1node_Status n') = [''cpu'' \<mapsto> ''8'', ''memory'' \<mapsto> ''32Gi'', ''pods'' \<mapsto> ''10'']
      \<and> Allocatable (v1node_Status n') = Capacity (v1node_Status n')
      \<and> Architecture (NodeInfo (v1node_Status n')) = ''amd64''
      \<and> OperatingSystem (NodeInfo (v1node_Status n')) = ''Linux'')"
proof -
  let ?now = "\<lambda>k. 1600000000 + int k"
  have cpu: "some_quantity (CPU (config kubelet_provider)) = Some ''8''"
    and mem: "some_quantity (Memory (config kubelet_provider)) = Some ''32Gi''"
    and pods: "some_quantity (Pods (config kubelet_provider)) = Some ''10''"
    and os: "operatingSystem kubelet_provider = ''''"
    by (simp_all add: kubelet_provider_def some_quantity_def)
  have "ConfigureNode some_quantity ?now kubelet_provider (Some bare_node) \<noteq> None"
    using ConfigureNode_allocatable_is_capacity
      [of some_quantity ?now kubelet_provider bare_node bare_node] cpu mem pods by simp
  then obtain n' where
    r: "ConfigureNode some_quantity ?now kubelet_provider (Some bare_node) = Some n'"
    by auto
  have "Capacity (v1node_Status n') = [''cpu'' \<mapsto> ''8'', ''memory'' \<mapsto> ''32Gi'', ''pods'' \<mapsto> ''10'']
      \<and> Allocatable (v1node_Status n') = Capacity (v1node_Status n')
      \<and> Architecture (NodeInfo (v1node_Status n')) = ''amd64''
      \<and> OperatingSystem (NodeInfo (v1node_Status n')) = ''Linux''"
    using ConfigureNode_allocatable_is_capacity
      [of some_quantity ?now kubelet_provider bare_node n'] r cpu mem pods os
    by auto
  then show ?thesis using r by blast
qed

end
